theory Spec2Isabelle
  imports Complex_Main "HOL-Library.Char_ord" "HOL-Library.List_Lexorder" "HOL-Library.Multiset"
begin

section \<open>JavaScript values that the prober inspects\<close>

text \<open>
  The provider's JSON is modelled by its documented shape. A telemetry value, and the
  \<open>online\<close> field of the device metadata, is a JSON scalar or is absent
  (\<open>undefined\<close>). Numbers are rationals: the quotient \<open>v / 10\<close> is exact, the rounding
  of IEEE doubles is not modelled. Strings are lists of bytes.
\<close>

datatype jsval = JUndefined | JNull | JBool bool | JNum rat | JStr string

text \<open>JavaScript truthiness, as used by \<open>||\<close>, \<open>&&\<close> and \<open>if\<close>.\<close>

fun truthy :: "jsval \<Rightarrow> bool" where
  "truthy JUndefined = False"
| "truthy JNull = False"
| "truthy (JBool b) = b"
| "truthy (JNum r) = (r \<noteq> 0)"
| "truthy (JStr s) = (s \<noteq> [])"

text \<open>\<open>a || b\<close>: the left operand when it is truthy, the right operand otherwise.\<close>

definition js_or :: "jsval \<Rightarrow> jsval \<Rightarrow> jsval" where
  "js_or a b = (if truthy a then a else b)"

text \<open>
  A string or \<open>null\<close>/\<open>undefined\<close> (\<open>None\<close>), as the token cache and the optional
  string fields hold it; the empty string is falsy.
\<close>

definition truthy_str :: "string option \<Rightarrow> bool" where
  "truthy_str s = (case s of None \<Rightarrow> False | Some x \<Rightarrow> x \<noteq> [])"

text \<open>
  The value of \<open>powerValue / 10\<close>. For a string the quotient goes through JavaScript's
  string-to-number conversion, which is left symbolic: \<open>QuotientOfString s\<close> stands for
  \<open>Number(s) / 10\<close>.
\<close>

datatype reading = Null | Num rat | QuotientOfString string | NaN

fun div10 :: "jsval \<Rightarrow> reading" where
  "div10 (JNum r) = Num (r / 10)"
| "div10 (JBool b) = Num ((if b then 1 else 0) / 10)"
| "div10 JNull = Num 0"
| "div10 JUndefined = NaN"
| "div10 (JStr s) = QuotientOfString s"

section \<open>Signer\<close>

text \<open>
  Node's \<open>crypto\<close> module is a parameter: \<open>sha256_hex s\<close> is
  \<open>createHash('sha256').update(s).digest('hex')\<close> and \<open>hmac_sha256_hex k s\<close> is
  \<open>createHmac('sha256', k).update(s).digest('hex')\<close>.
\<close>

record crypto =
  sha256_hex :: "string \<Rightarrow> string"
  hmac_sha256_hex :: "string \<Rightarrow> string \<Rightarrow> string"

text \<open>Case mapping on the ASCII letters, which is all a hexadecimal digest contains.\<close>

definition upper_char :: "char \<Rightarrow> char" where
  "upper_char c = (if CHR ''a'' \<le> c \<and> c \<le> CHR ''z'' then char_of (of_char c - (32::nat)) else c)"

definition lower_char :: "char \<Rightarrow> char" where
  "lower_char c = (if CHR ''A'' \<le> c \<and> c \<le> CHR ''Z'' then char_of (of_char c + (32::nat)) else c)"

definition toUpperCase :: "string \<Rightarrow> string" where
  "toUpperCase s = map upper_char s"

definition toLowerCase :: "string \<Rightarrow> string" where
  "toLowerCase s = map lower_char s"

text \<open>\<open>Date.now().toString()\<close>: the decimal digits of the clock reading.\<close>

definition digit_char :: "nat \<Rightarrow> char" where
  "digit_char d = char_of (48 + d)"

fun toString :: "nat \<Rightarrow> string" where
  "toString n = (if n < 10 then [digit_char n] else toString (n div 10) @ [digit_char (n mod 10)])"

declare toString.simps [simp del]

text \<open>\<open>Array.prototype.join\<close> on strings.\<close>

fun join :: "string \<Rightarrow> string list \<Rightarrow> string" where
  "join sep [] = []"
| "join sep [x] = x"
| "join sep (x # y # ys) = x @ sep @ join sep (y # ys)"

text \<open>
  A query object is the list of its entries, in the order of \<open>Object.entries\<close>, each
  value already converted to a string. The default \<open>sort()\<close> compares the entries as
  strings, and an entry \<open>[k, v]\<close> converts to \<open>k,v\<close>; the sort is stable.
\<close>

type_synonym query = "(string \<times> string) list"

definition entry_string :: "string \<times> string \<Rightarrow> string" where
  "entry_string e = fst e @ '','' @ snd e"

definition querySorted :: "query \<Rightarrow> string" where
  "querySorted query = join ''&'' (map (\<lambda>v. fst v @ ''='' @ snd v) (sort_key entry_string query))"

text \<open>
  \<open>signRequest(path, method, query, body, token)\<close>. The body is given by its
  \<open>JSON.stringify\<close> text. The module constants \<open>ACCESS_ID\<close> and \<open>ACCESS_KEY\<close>, the
  module variable \<open>accessToken\<close> and the clock reading of \<open>Date.now()\<close> are explicit.
\<close>

definition signRequest ::
  "crypto \<Rightarrow> string \<Rightarrow> string \<Rightarrow> string option \<Rightarrow> nat \<Rightarrow>
   string \<Rightarrow> string \<Rightarrow> query \<Rightarrow> string \<Rightarrow> string option \<Rightarrow> string \<times> string" where
  "signRequest cr access_id access_key cachedToken now path method query body token =
    (let t = toString now;
         bodyStr = (if method = ''POST'' \<or> method = ''PUT'' then body else []);
         contentHash = toLowerCase (sha256_hex cr bodyStr);
         qs = querySorted query;
         urlForSign = (if qs \<noteq> [] then path @ ''?'' @ qs else path);
         stringToSign = method @ [CHR 0x0A] @ contentHash @ [CHR 0x0A, CHR 0x0A] @ urlForSign;
         tok = (if truthy_str token then the token
                else if truthy_str cachedToken then the cachedToken else []);
         signStr = access_id @ tok @ t @ stringToSign;
         sign = toUpperCase (hmac_sha256_hex cr access_key signStr)
     in (t, sign))"

section \<open>The provider's HTTP interface\<close>

text \<open>
  The \<open>result\<close> member of a response envelope: absent (\<open>undefined\<close> or \<open>null\<close>), the
  token object (\<open>access_token\<close>, \<open>expire_time\<close> in seconds), the device metadata (its
  \<open>online\<close> field), the telemetry list of \<open>{code, value}\<close> pairs, or any other value.
\<close>

datatype payload =
    PAbsent
  | PToken "string option" "int option"
  | PInfo jsval
  | PStatus "(string \<times> jsval) list"
  | POther

record envelope =
  e_success :: bool
  e_code :: "int option"
  e_msg :: "string option"
  e_result :: payload

text \<open>
  \<open>response.data\<close>: an empty body (the empty string), \<open>null\<close>, or an envelope.
\<close>

datatype resp_data = DEmpty | DNull | DObj envelope

text \<open>
  A thrown value: \<open>error.code\<close>, \<open>error.message\<close> and \<open>error.response.data\<close>
  (present when the provider answered with a status outside 2xx).
\<close>

record js_error =
  err_code :: "string option"
  err_message :: string
  err_response :: "envelope option"

definition Error :: "string \<Rightarrow> js_error" where
  "Error m = \<lparr>err_code = None, err_message = m, err_response = None\<rparr>"

datatype reply = Resolved resp_data | Rejected js_error

record request =
  req_verb :: string
  req_url :: string
  req_headers :: "(string \<times> string option) list"
  req_params :: "query option"
  req_data :: "string option"
  req_timeout :: nat

text \<open>
  The module's environment: its constants, the crypto library, and the network. The
  \<open>n\<close>-th HTTP call of a run takes \<open>fst (net n)\<close> milliseconds and settles as
  \<open>snd (net n)\<close>; every call settles, since each carries a timeout.
\<close>

record env =
  ACCESS_ID :: string
  ACCESS_KEY :: string
  API_BASE_URL :: string
  crypt :: crypto
  net :: "nat \<Rightarrow> nat \<times> reply"

text \<open>
  The module's mutable state (\<open>accessToken\<close>, \<open>tokenExpiryTime\<close>), the clock read by
  \<open>Date.now()\<close> in milliseconds, and the HTTP requests issued so far.
\<close>

record world =
  accessToken :: "string option"
  tokenExpiryTime :: "int option"
  clock :: nat
  requests :: "request list"

definition axios :: "env \<Rightarrow> request \<Rightarrow> world \<Rightarrow> reply \<times> world" where
  "axios ev req w =
    (case net ev (length (requests w)) of
       (elapsed, r) \<Rightarrow> (r, w\<lparr>clock := clock w + elapsed, requests := requests w @ [req]\<rparr>))"

section \<open>Token cache\<close>

fun access_token :: "payload \<Rightarrow> string option" where
  "access_token (PToken t e) = t"
| "access_token p = None"

fun expire_time :: "payload \<Rightarrow> int option" where
  "expire_time (PToken t e) = e"
| "expire_time p = None"

definition token_error_prefix :: string where
  "token_error_prefix =
    [CHR 0xD0, CHR 0x9D, CHR 0xD0, CHR 0xB5, CHR '' '', CHR 0xD1, CHR 0x83, CHR 0xD0, CHR 0xB4,
     CHR 0xD0, CHR 0xB0, CHR 0xD0, CHR 0xBB, CHR 0xD0, CHR 0xBE, CHR 0xD1, CHR 0x81, CHR 0xD1,
     CHR 0x8C, CHR '' '', CHR 0xD0, CHR 0xBF, CHR 0xD0, CHR 0xBE, CHR 0xD0, CHR 0xBB, CHR 0xD1,
     CHR 0x83, CHR 0xD1, CHR 0x87, CHR 0xD0, CHR 0xB8, CHR 0xD1, CHR 0x82, CHR 0xD1, CHR 0x8C,
     CHR '' '', CHR 0xD1, CHR 0x82, CHR 0xD0, CHR 0xBE, CHR 0xD0, CHR 0xBA, CHR 0xD0, CHR 0xB5,
     CHR 0xD0, CHR 0xBD, CHR '' '', CHR 0xD0, CHR 0xB4, CHR 0xD0, CHR 0xBE, CHR 0xD1, CHR 0x81,
     CHR 0xD1, CHR 0x82, CHR 0xD1, CHR 0x83, CHR 0xD0, CHR 0xBF, CHR 0xD0, CHR 0xB0, CHR '':'',
     CHR '' '']"

text \<open>The request of the token fetch (source lines 56 to 71).\<close>

definition tokenRequest :: "env \<Rightarrow> world \<Rightarrow> request" where
  "tokenRequest ev w =
    (let method = ''GET'';
         path = ''/v1.0/token'';
         query = [(''grant_type'', ''1'')];
         (t, sign) = signRequest (crypt ev) (ACCESS_ID ev) (ACCESS_KEY ev) (accessToken w) (clock w)
                       path method query ''{}'' None;
         headers = [(''client_id'', Some (ACCESS_ID ev)), (''sign'', Some sign), (''t'', Some t),
                    (''sign_method'', Some ''HMAC-SHA256'')]
     in \<lparr>req_verb = ''get'', req_url = API_BASE_URL ev @ path, req_headers = headers,
         req_params = Some query, req_data = None, req_timeout = 10000\<rparr>)"

text \<open>
  The \<open>try\<close> block of \<open>getAccessToken\<close> once the HTTP call has settled (source lines 73
  to 81). Reading \<open>access_token\<close> off an absent \<open>result\<close>, or \<open>msg\<close> off a \<open>null\<close> body,
  throws a TypeError.
\<close>

definition tokenResponse :: "reply \<Rightarrow> world \<Rightarrow> (js_error + string option) \<times> world" where
  "tokenResponse r w =
    (case r of
       Rejected error \<Rightarrow> (Inl error, w)
     | Resolved DEmpty \<Rightarrow> (Inl (Error ''Unknown error''), w)
     | Resolved DNull \<Rightarrow> (Inl (Error ''Cannot read properties of null (reading 'msg')''), w)
     | Resolved (DObj d) \<Rightarrow>
         (if e_success d then
            (if e_result d = PAbsent
             then (Inl (Error ''Cannot read properties of undefined (reading 'access_token')''), w)
             else
               let expiresIn = (case expire_time (e_result d) of
                                  None \<Rightarrow> 7200
                                | Some n \<Rightarrow> if n \<noteq> 0 then n else 7200) * 1000
               in (Inr (access_token (e_result d)),
                   w\<lparr>accessToken := access_token (e_result d),
                     tokenExpiryTime := Some (int (clock w) + expiresIn - (5 * 60 * 1000))\<rparr>))
          else (Inl (Error (if truthy_str (e_msg d) then the (e_msg d) else ''Unknown error'')), w)))"

definition getAccessToken :: "env \<Rightarrow> bool \<Rightarrow> world \<Rightarrow> (js_error + string option) \<times> world" where
  "getAccessToken ev forceRefresh w =
    (if truthy_str (accessToken w) \<and> \<not> forceRefresh \<and>
        (case tokenExpiryTime w of None \<Rightarrow> False | Some e \<Rightarrow> e \<noteq> 0 \<and> int (clock w) < e)
     then (Inr (accessToken w), w)
     else
       let w0 = (if truthy_str (accessToken w) \<and> \<not> forceRefresh then w\<lparr>accessToken := None\<rparr> else w);
           (r, w1) = axios ev (tokenRequest ev w0) w0
       in case tokenResponse r w1 of
            (Inr token, w2) \<Rightarrow> (Inr token, w2)
          | (Inl error, w2) \<Rightarrow>
              (Inl (Error (token_error_prefix @ err_message error)),
               w2\<lparr>accessToken := None, tokenExpiryTime := None\<rparr>))"

section \<open>Signed requests with one retry on an authentication failure\<close>

definition MAX_RETRIES :: nat where
  "MAX_RETRIES = 1"

text \<open>The request that \<open>makeTuyaRequest\<close> builds (source lines 98 to 126).\<close>

definition tuyaRequest ::
  "env \<Rightarrow> world \<Rightarrow> string \<Rightarrow> string \<Rightarrow> query \<Rightarrow> string \<Rightarrow> string option \<Rightarrow> request" where
  "tuyaRequest ev w path method query body token =
    (let (t, sign) = signRequest (crypt ev) (ACCESS_ID ev) (ACCESS_KEY ev) (accessToken w) (clock w)
                       path method query body token;
         headers = [(''client_id'', Some (ACCESS_ID ev)), (''access_token'', token),
                    (''sign'', Some sign), (''t'', Some t), (''sign_method'', Some ''HMAC-SHA256'')]
     in if method = ''GET''
        then \<lparr>req_verb = ''get'', req_url = API_BASE_URL ev @ path, req_headers = headers,
              req_params = Some query, req_data = None, req_timeout = 15000\<rparr>
        else \<lparr>req_verb = (if method = ''POST'' then ''post'' else ''put''),
              req_url = API_BASE_URL ev @ path, req_headers = headers,
              req_params = None, req_data = Some body, req_timeout = 15000\<rparr>)"

definition clearToken :: "world \<Rightarrow> world" where
  "clearToken w = w\<lparr>accessToken := None, tokenExpiryTime := None\<rparr>"

text \<open>
  \<open>makeTuyaRequest(path, method, query, body, retryCount)\<close>. The retry is returned without
  \<open>await\<close>, so what the retry throws is not seen by the \<open>catch\<close> of the first attempt.
  An error thrown by \<open>getAccessToken\<close>, the unsupported-method error and the rate-limit
  error carry no \<open>response\<close>; the \<open>catch\<close> rethrows them.
\<close>

function makeTuyaRequest ::
  "env \<Rightarrow> string \<Rightarrow> string \<Rightarrow> query \<Rightarrow> string \<Rightarrow> nat \<Rightarrow> world \<Rightarrow> (js_error + resp_data) \<times> world" where
  "makeTuyaRequest ev path method query body retryCount w =
    (case getAccessToken ev False w of
       (Inl error, w1) \<Rightarrow> (Inl error, w1)
     | (Inr token, w1) \<Rightarrow>
         (if method \<noteq> ''GET'' \<and> method \<noteq> ''POST'' \<and> method \<noteq> ''PUT''
          then (Inl (Error (''Unsupported method: '' @ method)), w1)
          else
            (case axios ev (tuyaRequest ev w1 path method query body token) w1 of
               (Resolved data, w2) \<Rightarrow>
                 (case data of
                    DObj d \<Rightarrow>
                      (if \<not> e_success d then
                         (if (e_code d = Some 1010 \<or> e_code d = Some 1011) \<and> retryCount < MAX_RETRIES
                          then makeTuyaRequest ev path method query body (retryCount + 1) (clearToken w2)
                          else if e_code d = Some 429
                          then (Inl (Error ''Rate limit exceeded''), w2)
                          else (Inr data, w2))
                       else (Inr data, w2))
                  | _ \<Rightarrow> (Inr data, w2))
             | (Rejected error, w2) \<Rightarrow>
                 (case err_response error of
                    Some d \<Rightarrow>
                      (if (e_code d = Some 1010 \<or> e_code d = Some 1011) \<and> retryCount < MAX_RETRIES
                       then makeTuyaRequest ev path method query body (retryCount + 1) (clearToken w2)
                       else (Inl error, w2))
                  | None \<Rightarrow> (Inl error, w2)))))"
  by pat_completeness auto
termination
  by (relation "measure (\<lambda>(ev, path, method, query, body, retryCount, w). MAX_RETRIES - retryCount)")
     (auto simp: MAX_RETRIES_def)

declare makeTuyaRequest.simps [simp del]

section \<open>Device prober\<close>

text \<open>
  \<open>getDeviceInfo(deviceId)\<close>: the \<open>result\<close> of a successful metadata call, \<open>null\<close>
  (\<open>None\<close>) on any failure.
\<close>

definition getDeviceInfo :: "env \<Rightarrow> string \<Rightarrow> world \<Rightarrow> payload option \<times> world" where
  "getDeviceInfo ev deviceId w =
    (case makeTuyaRequest ev (''/v1.0/devices/'' @ deviceId) ''GET'' [] ''{}'' 0 w of
       (Inr (DObj d), w1) \<Rightarrow> (if e_success d then (Some (e_result d), w1) else (None, w1))
     | (Inr _, w1) \<Rightarrow> (None, w1)
     | (Inl error, w1) \<Rightarrow> (None, w1))"

record observation =
  isOnline :: bool
  responseTimeMs :: "nat option"
  powerConsumptionW :: reading
  voltageV :: reading
  error :: "string option"
  deviceId :: string
  deviceName :: "string option"

text \<open>
  The \<open>reduce\<close> over the telemetry list: a later pair overwrites an earlier one with the
  same code. Assigning a scalar to \<open>__proto__\<close> creates no property.
\<close>

definition statusMap_of :: "(string \<times> jsval) list \<Rightarrow> (string \<rightharpoonup> jsval)" where
  "statusMap_of result =
     foldl (\<lambda>acc (code, v). if code = ''__proto__'' then acc else acc(code \<mapsto> v)) Map.empty result"

definition getProp :: "(string \<rightharpoonup> jsval) \<Rightarrow> string \<Rightarrow> jsval" where
  "getProp m k = (case m k of None \<Rightarrow> JUndefined | Some v \<Rightarrow> v)"

text \<open>
  \<open>response.data.result || []\<close> followed by the \<open>Array.isArray\<close> test: only a telemetry
  array contributes pairs; an absent result becomes the empty array and any other value
  gives the empty map.
\<close>

fun statusMap :: "payload \<Rightarrow> (string \<rightharpoonup> jsval)" where
  "statusMap (PStatus result) = statusMap_of result"
| "statusMap p = Map.empty"

text \<open>\<open>deviceInfo?.online\<close>.\<close>

fun online_field :: "payload option \<Rightarrow> jsval" where
  "online_field (Some (PInfo v)) = v"
| "online_field p = JUndefined"

text \<open>The \<open>catch\<close> block of \<open>checkDeviceAvailability\<close> (source lines 298 to 319).\<close>

definition probeFailed :: "js_error \<Rightarrow> string \<Rightarrow> string option \<Rightarrow> observation" where
  "probeFailed err did dname =
    (let errorMessage =
           (if err_code err = Some ''ECONNABORTED'' then ''Timeout''
            else if err_code err = Some ''ENOTFOUND'' \<or> err_code err = Some ''ECONNREFUSED''
            then ''Connection error''
            else err_message err)
     in \<lparr>isOnline = False, responseTimeMs = None, powerConsumptionW = Null, voltageV = Null,
         error = Some errorMessage, deviceId = did, deviceName = dname\<rparr>)"

text \<open>The success branch (source lines 208 to 285).\<close>

definition probeSucceeded ::
  "payload option \<Rightarrow> payload \<Rightarrow> nat \<Rightarrow> string \<Rightarrow> string option \<Rightarrow> observation" where
  "probeSucceeded deviceInfo result responseTime did dname =
    (let sm = statusMap result;
         powerValue = js_or (getProp sm ''cur_power'')
                        (js_or (getProp sm ''cur_power_1'') (js_or (getProp sm ''power'') JNull));
         powerW = (if powerValue \<noteq> JNull \<and> powerValue \<noteq> JUndefined then div10 powerValue else Null);
         voltageValue = js_or (getProp sm ''cur_voltage'') JNull;
         voltage = (if voltageValue \<noteq> JNull \<and> voltageValue \<noteq> JUndefined
                    then div10 voltageValue else Null);
         deviceOnlineStatus = online_field deviceInfo;
         isActuallyOnline =
           (if deviceInfo \<noteq> None then
              (if deviceOnlineStatus = JBool False then False
               else if deviceOnlineStatus = JBool True then True
               else True)
            else True)
     in \<lparr>isOnline = isActuallyOnline, responseTimeMs = Some responseTime,
         powerConsumptionW = powerW, voltageV = voltage, error = None,
         deviceId = did, deviceName = dname\<rparr>)"

text \<open>The branch for a response that is not a success envelope (source lines 286 to 297).\<close>

definition probeRejected :: "resp_data \<Rightarrow> string \<Rightarrow> string option \<Rightarrow> observation" where
  "probeRejected data did dname =
    (let msg = (case data of DObj d \<Rightarrow> e_msg d | _ \<Rightarrow> None)
     in \<lparr>isOnline = False, responseTimeMs = None, powerConsumptionW = Null, voltageV = Null,
         error = Some (if truthy_str msg then the msg else ''Unknown API error''),
         deviceId = did, deviceName = dname\<rparr>)"

text \<open>
  \<open>checkDeviceAvailability(deviceId, deviceName)\<close>. The result is a sum, as for every
  JavaScript function that could throw; \<open>Inl\<close> would be an exception leaving the function.
\<close>

definition checkDeviceAvailability ::
  "env \<Rightarrow> string \<Rightarrow> string option \<Rightarrow> world \<Rightarrow> (js_error + observation) \<times> world" where
  "checkDeviceAvailability ev did dname w =
    (let startTime = clock w;
         (deviceInfo, w1) = getDeviceInfo ev did w
     in case makeTuyaRequest ev (''/v1.0/devices/'' @ did @ ''/status'') ''GET'' [] ''{}'' 0 w1 of
          (Inl err, w2) \<Rightarrow> (Inr (probeFailed err did dname), w2)
        | (Inr data, w2) \<Rightarrow>
            (let responseTime = clock w2 - startTime
             in case data of
                  DObj d \<Rightarrow>
                    (if e_success d
                     then (Inr (probeSucceeded deviceInfo (e_result d) responseTime did dname), w2)
                     else (Inr (probeRejected data did dname), w2))
                | _ \<Rightarrow> (Inr (probeRejected data did dname), w2)))"

section \<open>Poll orchestrator\<close>

record device =
  dev_id :: string
  dev_name :: string

text \<open>\<open>getDevices()\<close> over the entries of \<open>DEVICE_IDS\<close>, name first.\<close>

definition getDevices :: "(string \<times> string) list \<Rightarrow> device list" where
  "getDevices DEVICE_IDS = map (\<lambda>(name, ident). \<lparr>dev_id = ident, dev_name = name\<rparr>) DEVICE_IDS"

text \<open>
  The arguments of one \<open>db.savePowerStatus\<close> call. The database is a parameter: \<open>db row\<close>
  is \<open>None\<close> when the write succeeds and \<open>Some message\<close> when it throws.
\<close>

record saved_row =
  row_deviceId :: string
  row_deviceName :: "string option"
  row_isOnline :: bool
  row_responseTimeMs :: "nat option"
  row_powerConsumptionW :: reading
  row_errorMessage :: "string option"

type_synonym db = "saved_row \<Rightarrow> string option"

text \<open>
  The handler that \<open>POST /monitor\<close> maps over the devices (source lines 33 to 87).
  The probes run concurrently; \<open>probe device\<close> is what the promise of
  \<open>tuya.checkDeviceAvailability(device.id, device.name)\<close> settles to in this cycle.
  The handler returns its result and the rows that were written. The object returned by
  the outer \<open>catch\<close> has no \<open>responseTimeMs\<close> and no \<open>voltageV\<close>; absent and
  \<open>null\<close> are both \<open>None\<close>, respectively \<open>Null\<close>.
\<close>

definition monitorDevice ::
  "(device \<Rightarrow> js_error + observation) \<Rightarrow> db \<Rightarrow> device \<Rightarrow> observation \<times> saved_row list" where
  "monitorDevice probe db dev =
    (case probe dev of
       Inr result \<Rightarrow>
         (let powerConsumptionToSave = (if isOnline result then powerConsumptionW result else Null);
              row = \<lparr>row_deviceId = deviceId result, row_deviceName = deviceName result,
                     row_isOnline = isOnline result, row_responseTimeMs = responseTimeMs result,
                     row_powerConsumptionW = powerConsumptionToSave,
                     row_errorMessage = error result\<rparr>
          in (result, if db row = None then [row] else []))
     | Inl err \<Rightarrow>
         (let row = \<lparr>row_deviceId = dev_id dev, row_deviceName = Some (dev_name dev),
                     row_isOnline = False, row_responseTimeMs = None,
                     row_powerConsumptionW = Null, row_errorMessage = Some (err_message err)\<rparr>
          in (\<lparr>isOnline = False, responseTimeMs = None, powerConsumptionW = Null, voltageV = Null,
               error = Some (err_message err), deviceId = dev_id dev,
               deviceName = Some (dev_name dev)\<rparr>,
              if db row = None then [row] else [])))"

record entry =
  r_deviceId :: string
  r_deviceName :: "string option"
  r_isOnline :: bool
  r_responseTimeMs :: "nat option"
  r_powerConsumptionW :: reading

record summary =
  devicesChecked :: nat
  online :: nat
  offline :: nat
  results :: "entry list"

datatype http_response = Status200 summary | Status500 string

text \<open>
  \<open>POST /monitor\<close> (source lines 24 to 119), without the \<open>timestamp\<close> member: the
  response and the rows written to the database. \<open>devices\<close> is what
  \<open>tuya.getDevices()\<close> returned; every handler settles, so the outer \<open>catch\<close> with its
  status 500 is not reached.
\<close>

definition monitor ::
  "(device \<Rightarrow> js_error + observation) \<Rightarrow> db \<Rightarrow> device list \<Rightarrow> http_response \<times> saved_row list" where
  "monitor probe db devices =
    (let settled = map (monitorDevice probe db) devices;
         rs = map fst settled;
         onlineCount = length (filter isOnline rs);
         offlineCount = length rs - onlineCount
     in (Status200 \<lparr>devicesChecked = length rs, online = onlineCount, offline = offlineCount,
                    results = map (\<lambda>r. \<lparr>r_deviceId = deviceId r, r_deviceName = deviceName r,
                                          r_isOnline = isOnline r,
                                          r_responseTimeMs = responseTimeMs r,
                                          r_powerConsumptionW = powerConsumptionW r\<rparr>) rs\<rparr>,
         concat (map snd settled)))"

section \<open>Derived notions used in the statements\<close>

text \<open>
  What \<open>makeTuyaRequest\<close> does once no retry is left: the same body, with the retry
  branches unreachable.
\<close>

definition lastAttempt ::
  "env \<Rightarrow> string \<Rightarrow> string \<Rightarrow> query \<Rightarrow> string \<Rightarrow> world \<Rightarrow> (js_error + resp_data) \<times> world" where
  "lastAttempt ev path method query body w =
    (case getAccessToken ev False w of
       (Inl err, w1) \<Rightarrow> (Inl err, w1)
     | (Inr token, w1) \<Rightarrow>
         (if method \<noteq> ''GET'' \<and> method \<noteq> ''POST'' \<and> method \<noteq> ''PUT''
          then (Inl (Error (''Unsupported method: '' @ method)), w1)
          else
            (case axios ev (tuyaRequest ev w1 path method query body token) w1 of
               (Resolved data, w2) \<Rightarrow>
                 (case data of
                    DObj d \<Rightarrow>
                      (if \<not> e_success d then
                         (if e_code d = Some 429
                          then (Inl (Error ''Rate limit exceeded''), w2)
                          else (Inr data, w2))
                       else (Inr data, w2))
                  | _ \<Rightarrow> (Inr data, w2))
             | (Rejected err, w2) \<Rightarrow> (Inl err, w2))))"

text \<open>
  The provider's two authentication-failure codes, a reply that carries one of them
  (in a 2xx envelope or in the body of an HTTP error), and what a reply becomes when no
  retry follows it.
\<close>

definition authCode :: "envelope \<Rightarrow> bool" where
  "authCode d = (e_code d = Some 1010 \<or> e_code d = Some 1011)"

definition authRejected :: "reply \<Rightarrow> bool" where
  "authRejected r =
     (case r of
        Resolved (DObj d) \<Rightarrow> \<not> e_success d \<and> authCode d
      | Resolved _ \<Rightarrow> False
      | Rejected err \<Rightarrow> (case err_response err of Some d \<Rightarrow> authCode d | None \<Rightarrow> False))"

definition settled :: "reply \<Rightarrow> js_error + resp_data" where
  "settled r =
     (case r of
        Resolved (DObj d) \<Rightarrow>
          (if \<not> e_success d \<and> e_code d = Some 429 then Inl (Error ''Rate limit exceeded'')
           else Inr (DObj d))
      | Resolved data \<Rightarrow> Inr data
      | Rejected err \<Rightarrow> Inl err)"

text \<open>The test under which \<open>getAccessToken()\<close> answers from the cache.\<close>

definition cacheValid :: "world \<Rightarrow> bool" where
  "cacheValid w =
     (truthy_str (accessToken w) \<and>
      (case tokenExpiryTime w of None \<Rightarrow> False | Some e \<Rightarrow> e \<noteq> 0 \<and> int (clock w) < e))"

text \<open>The same module state, \<open>ms\<close> milliseconds later.\<close>

definition later :: "nat \<Rightarrow> world \<Rightarrow> world" where
  "later ms w = w\<lparr>clock := clock w + ms\<rparr>"

text \<open>The status call of a probe: the second \<open>makeTuyaRequest\<close>, after the metadata call.\<close>

definition statusCall :: "env \<Rightarrow> string \<Rightarrow> world \<Rightarrow> (js_error + resp_data) \<times> world" where
  "statusCall ev did w =
     makeTuyaRequest ev (''/v1.0/devices/'' @ did @ ''/status'') ''GET'' [] ''{}'' 0
       (snd (getDeviceInfo ev did w))"

definition statusSucceeded :: "js_error + resp_data \<Rightarrow> bool" where
  "statusSucceeded r = (case r of Inr (DObj d) \<Rightarrow> e_success d | _ \<Rightarrow> False)"

text \<open>A probe that runs alone, from a given state of the module.\<close>

definition probe_in :: "env \<Rightarrow> world \<Rightarrow> device \<Rightarrow> js_error + observation" where
  "probe_in ev w dev = fst (checkDeviceAvailability ev (dev_id dev) (Some (dev_name dev)) w)"

text \<open>
  The extraction of the earlier module \<open>tuya.js\<close> (its lines 106 to 113), which reads
  only \<open>cur_power\<close>.
\<close>

definition powerConsumptionW_v1 :: "(string \<times> jsval) list \<Rightarrow> reading" where
  "powerConsumptionW_v1 result =
    (let sm = statusMap_of result;
         powerValue = js_or (getProp sm ''cur_power'') JNull
     in if powerValue \<noteq> JNull then div10 powerValue else Null)"

text \<open>The entry that the summary reports for a handler result.\<close>

definition entry_of :: "observation \<Rightarrow> entry" where
  "entry_of r = \<lparr>r_deviceId = deviceId r, r_deviceName = deviceName r, r_isOnline = isOnline r,
                 r_responseTimeMs = responseTimeMs r, r_powerConsumptionW = powerConsumptionW r\<rparr>"

section \<open>The signature in the words of the specification\<close>





section \<open>Example runs\<close>

text \<open>
  A network that answers from a list and times out afterwards, a success envelope, an
  authentication-failure envelope, and an environment with stand-ins for the digests.
\<close>

definition script :: "(nat \<times> reply) list \<Rightarrow> nat \<Rightarrow> nat \<times> reply" where
  "script rs n = (if n < length rs then rs ! n
                  else (15000, Rejected \<lparr>err_code = Some ''ECONNABORTED'',
                          err_message = ''timeout of 15000ms exceeded'', err_response = None\<rparr>))"

definition okData :: "payload \<Rightarrow> resp_data" where
  "okData p = DObj \<lparr>e_success = True, e_code = None, e_msg = None, e_result = p\<rparr>"

definition ok :: "payload \<Rightarrow> reply" where
  "ok p = Resolved (okData p)"


definition tokenReply :: "string \<Rightarrow> int \<Rightarrow> nat \<times> reply" where
  "tokenReply tok lifetime = (100, ok (PToken (Some tok) (Some lifetime)))"

definition scenario_env :: "(nat \<times> reply) list \<Rightarrow> env" where
  "scenario_env rs =
     \<lparr>ACCESS_ID = ''id'', ACCESS_KEY = ''key'', API_BASE_URL = ''https://openapi.tuyaeu.com'',
      crypt = \<lparr>sha256_hex = (\<lambda>s. s), hmac_sha256_hex = (\<lambda>k s. s)\<rparr>, net = script rs\<rparr>"


text \<open>An empty token cache, and the state right after the first token fetch of a run.\<close>

definition world0 :: world where
  "world0 = \<lparr>accessToken = None, tokenExpiryTime = None, clock = 1700000000000, requests = []\<rparr>"

definition after_fetch :: "env \<Rightarrow> world" where
  "after_fetch ev = snd (getAccessToken ev False world0)"

text \<open>Telemetry lists and the networks of the example runs.\<close>

definition telemetry_235 :: "(string \<times> jsval) list" where
  "telemetry_235 = [(''switch_1'', JBool True), (''cur_power'', JNum 235), (''cur_voltage'', JNum 2300)]"

definition telemetry_zero :: "(string \<times> jsval) list" where
  "telemetry_zero = [(''switch_1'', JBool True), (''cur_power'', JNum 0), (''cur_voltage'', JNum 0)]"

definition metadata_offline_env :: env where
  "metadata_offline_env = scenario_env
     [tokenReply ''tokA'' 7200, (50, ok (PInfo (JBool False))), (70, ok (PStatus telemetry_235))]"

definition online_env :: env where
  "online_env = scenario_env
     [tokenReply ''tokA'' 7200, (50, ok (PInfo (JBool True))), (70, ok (PStatus telemetry_235))]"

definition zero_env :: env where
  "zero_env = scenario_env
     [tokenReply ''tokA'' 7200, (50, ok (PInfo (JBool True))), (70, ok (PStatus telemetry_zero))]"

definition timeout_env :: env where
  "timeout_env = scenario_env [tokenReply ''tokA'' 7200, (50, ok (PInfo (JBool True)))]"

definition zero_lifetime_env :: env where
  "zero_lifetime_env = scenario_env [tokenReply ''tokA'' 0]"

definition token_env :: env where
  "token_env = scenario_env [tokenReply ''tokA'' 7200, tokenReply ''tokB'' 7200]"



text \<open>
  Two devices and the two probes of one cycle: the first device answers with
  \<open>cur_power = 235\<close>, the status call of the second times out. A database whose writes
  succeed, and one whose write throws for one device.
\<close>

definition plug1 :: device where
  "plug1 = \<lparr>dev_id = ''dev1'', dev_name = ''Plug 1''\<rparr>"

definition plug2 :: device where
  "plug2 = \<lparr>dev_id = ''dev2'', dev_name = ''Plug 2''\<rparr>"

definition scenario_probe :: "device \<Rightarrow> js_error + observation" where
  "scenario_probe dev =
     (if dev_id dev = ''dev1'' then probe_in online_env world0 dev
      else probe_in timeout_env world0 dev)"

definition db_ok :: db where
  "db_ok row = None"

definition db_fails_for :: "string \<Rightarrow> db" where
  "db_fails_for did row = (if row_deviceId row = did then Some ''Connection lost'' else None)"

section \<open>Unfolding lemmas\<close>

lemma makeTuyaRequest_last:
  assumes "MAX_RETRIES \<le> retryCount"
  shows "makeTuyaRequest ev path method query body retryCount w =
           lastAttempt ev path method query body w"
proof -
  from assms have h: "\<not> retryCount < MAX_RETRIES" by simp
  show ?thesis
    by (subst makeTuyaRequest.simps)
       (simp add: lastAttempt_def h
          split: prod.split sum.split reply.split resp_data.split option.split)
qed

lemmas scenario_simps =
  makeTuyaRequest.simps [of _ _ _ _ _ 0] makeTuyaRequest_last MAX_RETRIES_def lastAttempt_def
  getAccessToken_def tokenResponse_def axios_def scenario_env_def script_def ok_def okData_def world0_def
  truthy_str_def clearToken_def getDeviceInfo_def statusCall_def

lemmas scenario_defs =
  metadata_offline_env_def online_env_def zero_env_def timeout_env_def tokenReply_def
  telemetry_235_def telemetry_zero_def

text \<open>The telemetry map holds, for each code, the value of the last pair with that code.\<close>

lemma statusMap_of_fold:
  "k \<noteq> ''__proto__'' \<Longrightarrow>
   foldl (\<lambda>acc (code, v). if code = ''__proto__'' then acc else acc(code \<mapsto> v)) m result k =
     (case map_of (rev result) k of None \<Rightarrow> m k | Some v \<Rightarrow> Some v)"
  by (induction result arbitrary: m) (auto simp: map_add_def split: option.splits)

lemma statusMap_of_last:
  "k \<noteq> ''__proto__'' \<Longrightarrow> statusMap_of result k = map_of (rev result) k"
  by (simp add: statusMap_of_def statusMap_of_fold split: option.splits)

lemma checkDeviceAvailability_cases:
  "checkDeviceAvailability ev did dname w =
    (case statusCall ev did w of
       (Inl err, w2) \<Rightarrow> (Inr (probeFailed err did dname), w2)
     | (Inr (DObj d), w2) \<Rightarrow>
         (if e_success d
          then (Inr (probeSucceeded (fst (getDeviceInfo ev did w)) (e_result d)
                       (clock w2 - clock w) did dname), w2)
          else (Inr (probeRejected (DObj d) did dname), w2))
     | (Inr data, w2) \<Rightarrow> (Inr (probeRejected data did dname), w2))"
  by (simp add: checkDeviceAvailability_def statusCall_def Let_def
      split: prod.splits sum.splits resp_data.splits)

lemmas probe_simps =
  checkDeviceAvailability_cases statusSucceeded_def probeFailed_def probeRejected_def
  probeSucceeded_def getProp_def js_or_def statusMap_of_last Let_def

section \<open>Device prober: the probe never throws\<close>



section \<open>Device prober: the online flag\<close>



section \<open>Device prober: scaling of the readings\<close>




section \<open>Device prober: a zero reading is reported as absent\<close>

text \<open>
  C10. For every successful status response whose \<open>cur_power\<close> value is the number 0,
  with no \<open>cur_power_1\<close> and no \<open>power\<close> code in the list, the Observation has
  \<open>powerConsumptionW = null\<close>; a \<open>cur_voltage\<close> value of 0 gives \<open>voltageV = null\<close>.
  The reading is the one of the same list without the pair, so a zero reading and an
  absent one cannot be told apart. The earlier module \<open>tuya.js\<close> gives \<open>null\<close> as well.
\<close>

theorem zero_reading_is_null:
  assumes "fst (statusCall ev did w) = Inr (DObj d)" and "e_success d"
    and "e_result d = PStatus result"
  shows "\<exists>obs. fst (checkDeviceAvailability ev did dname w) = Inr obs \<and>
      (map_of (rev result) ''cur_power'' = Some (JNum 0) \<and>
       ''cur_power_1'' \<notin> fst ` set result \<and> ''power'' \<notin> fst ` set result \<longrightarrow>
         powerConsumptionW obs = Null \<and>
         powerConsumptionW obs =
           powerConsumptionW (probeSucceeded (fst (getDeviceInfo ev did w))
             (PStatus (filter (\<lambda>p. fst p \<noteq> ''cur_power'') result)) 0 did dname) \<and>
         powerConsumptionW_v1 result = Null) \<and>
      (map_of (rev result) ''cur_voltage'' = Some (JNum 0) \<longrightarrow>
         voltageV obs = Null \<and>
         voltageV obs =
           voltageV (probeSucceeded (fst (getDeviceInfo ev did w))
             (PStatus (filter (\<lambda>p. fst p \<noteq> ''cur_voltage'') result)) 0 did dname))"
proof -
  obtain r w2 where sc: "statusCall ev did w = (r, w2)" by (cases "statusCall ev did w")
  with assms have r: "r = Inr (DObj d)" by simp
  have absent: "map_of (rev xs) k = None" if "k \<notin> fst ` set xs" for k and xs :: "(string \<times> jsval) list"
    using that by (simp add: map_of_eq_None_iff)
  have filt: "map_of (rev (filter (\<lambda>p. fst p \<noteq> k) xs)) k = None" for k and xs :: "(string \<times> jsval) list"
    by (simp add: map_of_eq_None_iff image_iff)
  have filt': "map_of (rev (filter (\<lambda>p. fst p \<noteq> k) xs)) k' = map_of (rev xs) k'" if "k' \<noteq> k"
    for k k' and xs :: "(string \<times> jsval) list"
    using that by (induction xs) (auto simp: map_add_def split: option.splits)
  show ?thesis
    using assms(2,3) by (simp add: probe_simps sc r absent filt filt' powerConsumptionW_v1_def)
qed


theorem zero_reading_is_null_witness:
  "fst (statusCall zero_env ''dev1'' world0) = Inr (okData (PStatus telemetry_zero)) \<and>
   map_of (rev telemetry_zero) ''cur_power'' = Some (JNum 0) \<and>
   ''cur_power_1'' \<notin> fst ` set telemetry_zero \<and> ''power'' \<notin> fst ` set telemetry_zero \<and>
   map_of (rev telemetry_zero) ''cur_voltage'' = Some (JNum 0) \<and>
   (\<exists>obs. fst (checkDeviceAvailability zero_env ''dev1'' (Some ''Plug 1'') world0) = Inr obs \<and>
      powerConsumptionW obs = Null \<and> voltageV obs = Null) \<and>
   powerConsumptionW_v1 telemetry_zero = Null"
proof -
  have a: "fst (statusCall zero_env ''dev1'' world0) = Inr (okData (PStatus telemetry_zero))"
    by (simp add: scenario_defs scenario_simps)
  have b: "map_of (rev telemetry_zero) ''cur_power'' = Some (JNum 0)"
    "map_of (rev telemetry_zero) ''cur_voltage'' = Some (JNum 0)"
    "''cur_power_1'' \<notin> fst ` set telemetry_zero" "''power'' \<notin> fst ` set telemetry_zero"
    by (simp_all add: telemetry_zero_def)
  show ?thesis
    using zero_reading_is_null [OF a [unfolded okData_def], of telemetry_zero "Some ''Plug 1''"] a b
    by auto
qed

section \<open>Device prober: readings of an offline Observation\<close>




section \<open>Token cache: validity window\<close>

lemma getAccessToken_fetch:
  assumes "\<not> cacheValid w"
    and "net ev (length (requests w)) = (elapsed, Resolved (DObj d))"
    and "e_success d" and "e_result d = PToken (Some tok) (Some L)" and "L \<noteq> 0"
  shows "getAccessToken ev False w =
     (Inr (Some tok),
      w\<lparr>clock := clock w + elapsed,
        requests := requests w @
          [tokenRequest ev (if truthy_str (accessToken w) then w\<lparr>accessToken := None\<rparr> else w)],
        accessToken := Some tok,
        tokenExpiryTime := Some (int (clock w + elapsed) + L * 1000 - 300000)\<rparr>)"
  using assms
  by (simp add: getAccessToken_def cacheValid_def axios_def tokenResponse_def Let_def)

lemma getAccessToken_cached:
  assumes "accessToken w = Some tok" and "tok \<noteq> []" and "tokenExpiryTime w = Some e"
    and "int (clock w) < e"
  shows "getAccessToken ev False w = (Inr (Some tok), w)"
  using assms by (auto simp: getAccessToken_def truthy_str_def)

lemma tokenResponse_requests:
  "tokenResponse r w = (x, w') \<Longrightarrow> requests w' = requests w"
  by (auto simp: tokenResponse_def Let_def split: reply.splits resp_data.splits if_splits)

lemma getAccessToken_expired:
  assumes "accessToken w = Some tok" and "tok \<noteq> []" and "tokenExpiryTime w = Some e"
    and "\<not> int (clock w) < e"
  shows "requests (snd (getAccessToken ev False w)) =
           requests w @ [tokenRequest ev (w\<lparr>accessToken := None\<rparr>)]"
proof -
  obtain el r where n: "net ev (length (requests w)) = (el, r)"
    by (cases "net ev (length (requests w))")
  show ?thesis
    using assms n
    by (auto simp: getAccessToken_def axios_def Let_def truthy_str_def
        split: prod.splits sum.splits dest: tokenResponse_requests)
qed

lemmas token_simps =
  getAccessToken_def tokenResponse_def axios_def scenario_env_def script_def ok_def okData_def
  world0_def truthy_str_def tokenReply_def later_def after_fetch_def

text \<open>
  C3, as stated, fails for a reported lifetime of 0: the code takes 7200 in its place,
  so 1000 seconds after the fetch (past \<open>L - 300\<close> seconds) the cached token is still
  returned and no fetch is performed.
\<close>

theorem token_cache_window_counterexample:
  "fst (getAccessToken zero_lifetime_env False world0) = Inr (Some ''tokA'') \<and>
   requests (after_fetch zero_lifetime_env) = [tokenRequest zero_lifetime_env world0] \<and>
   getAccessToken zero_lifetime_env False (later 1000000 (after_fetch zero_lifetime_env)) =
     (Inr (Some ''tokA''), later 1000000 (after_fetch zero_lifetime_env))"
  by (simp add: zero_lifetime_env_def token_simps)

text \<open>
  C3, amended. After a fetch (the cache being empty or expired) that succeeds with a
  non-empty token and a reported lifetime of \<open>L \<noteq> 0\<close> seconds, \<open>getAccessToken()\<close>
  returns the cached token, with no HTTP request, at every time strictly less than
  \<open>L - 300\<close> seconds after the fetch, and issues a new token request at every time at
  or past \<open>L - 300\<close> seconds. (A reported lifetime that is absent or 0 is taken as
  7200.)
\<close>

theorem token_cache_window:
  assumes "\<not> cacheValid w"
    and "net ev (length (requests w)) = (elapsed, Resolved (DObj d))"
    and "e_success d" and "e_result d = PToken (Some tok) (Some L)" and "tok \<noteq> []" and "L \<noteq> 0"
    and "accessToken w' = accessToken (snd (getAccessToken ev False w))"
    and "tokenExpiryTime w' = tokenExpiryTime (snd (getAccessToken ev False w))"
  shows "fst (getAccessToken ev False w) = Inr (Some tok) \<and>
     length (requests (snd (getAccessToken ev False w))) = length (requests w) + 1 \<and>
     (int (clock w') - int (clock (snd (getAccessToken ev False w))) < (L - 300) * 1000 \<longrightarrow>
        getAccessToken ev False w' = (Inr (Some tok), w')) \<and>
     ((L - 300) * 1000 \<le> int (clock w') - int (clock (snd (getAccessToken ev False w))) \<longrightarrow>
        requests (snd (getAccessToken ev False w')) =
          requests w' @ [tokenRequest ev (w'\<lparr>accessToken := None\<rparr>)])"
proof -
  note g = getAccessToken_fetch [OF assms(1,2,3,4,6)]
  have c: "accessToken w' = Some tok"
    "tokenExpiryTime w' = Some (int (clock w + elapsed) + L * 1000 - 300000)"
    using assms(7,8) by (simp_all add: g)
  have 1: "getAccessToken ev False w' = (Inr (Some tok), w')"
    if "int (clock w') - int (clock w + elapsed) < (L - 300) * 1000"
    using that by (intro getAccessToken_cached [OF c(1) assms(5) c(2)]) (simp add: algebra_simps)
  have 2: "requests (snd (getAccessToken ev False w')) =
          requests w' @ [tokenRequest ev (w'\<lparr>accessToken := None\<rparr>)]"
    if "(L - 300) * 1000 \<le> int (clock w') - int (clock w + elapsed)"
    using that by (intro getAccessToken_expired [OF c(1) assms(5) c(2)]) (simp add: algebra_simps)
  show ?thesis using 1 2 by (simp add: g)
qed

text \<open>
  Lifetime 7200: the token is served from the cache at 0 ms and at 6899999 ms after the
  fetch, and fetched again at 6900000 ms.
\<close>

theorem token_cache_window_witness:
  "\<not> cacheValid world0 \<and>
   net token_env (length (requests world0)) = tokenReply ''tokA'' 7200 \<and>
   fst (getAccessToken token_env False world0) = Inr (Some ''tokA'') \<and>
   getAccessToken token_env False (later 0 (after_fetch token_env)) =
     (Inr (Some ''tokA''), later 0 (after_fetch token_env)) \<and>
   getAccessToken token_env False (later 6899999 (after_fetch token_env)) =
     (Inr (Some ''tokA''), later 6899999 (after_fetch token_env)) \<and>
   requests (snd (getAccessToken token_env False (later 6900000 (after_fetch token_env)))) =
     requests (later 6900000 (after_fetch token_env)) @
       [tokenRequest token_env ((later 6900000 (after_fetch token_env))\<lparr>accessToken := None\<rparr>)]"
proof -
  let ?d = "\<lparr>e_success = True, e_code = None, e_msg = None,
             e_result = PToken (Some ''tokA'') (Some 7200)\<rparr>"
  have n: "net token_env (length (requests world0)) = (100, Resolved (DObj ?d))"
    by (simp add: token_env_def token_simps)
  have e: "\<not> cacheValid world0" by (simp add: world0_def cacheValid_def truthy_str_def)
  have c: "clock (later ms (after_fetch token_env)) = 1700000000100 + ms"
    "clock (after_fetch token_env) = 1700000000100" for ms
    by (simp_all add: token_env_def token_simps)
  note t = token_cache_window [OF e n, of "''tokA''" 7200, folded after_fetch_def]
  have t0: "getAccessToken token_env False (later 0 (after_fetch token_env)) =
     (Inr (Some ''tokA''), later 0 (after_fetch token_env))"
    using t [of "later 0 (after_fetch token_env)"] by (simp add: c) (simp add: later_def)
  have t1: "getAccessToken token_env False (later 6899999 (after_fetch token_env)) =
     (Inr (Some ''tokA''), later 6899999 (after_fetch token_env))"
    using t [of "later 6899999 (after_fetch token_env)"] by (simp add: c) (simp add: later_def)
  have t2: "requests (snd (getAccessToken token_env False (later 6900000 (after_fetch token_env)))) =
     requests (later 6900000 (after_fetch token_env)) @
       [tokenRequest token_env ((later 6900000 (after_fetch token_env))\<lparr>accessToken := None\<rparr>)]"
    using t [of "later 6900000 (after_fetch token_env)"] by (simp add: c) (simp add: later_def)
  show ?thesis
    using t [of "after_fetch token_env"] n e t0 t1 t2 by (simp add: tokenReply_def ok_def okData_def)
qed

section \<open>Signed requests: one retry on an authentication failure\<close>






text \<open>When the token cannot be fetched anew, its error is thrown and nothing is retried.\<close>

lemma auth_retry_refresh_fails:
  assumes "getAccessToken ev False w = (Inr tok0, w1)"
    and "method = ''GET'' \<or> method = ''POST'' \<or> method = ''PUT''"
    and "net ev (length (requests w1)) = (t1, r1)" and "authRejected r1"
    and "w2 = clearToken (w1\<lparr>clock := clock w1 + t1,
             requests := requests w1 @ [tuyaRequest ev w1 path method query body tok0]\<rparr>)"
    and "getAccessToken ev False w2 = (Inl err, w3)"
  shows "makeTuyaRequest ev path method query body 0 w = (Inl err, w3) \<and>
         requests w3 = requests w1 @ [tuyaRequest ev w1 path method query body tok0,
                                      tokenRequest ev w2]"
proof -
  have first: "makeTuyaRequest ev path method query body 0 w =
      lastAttempt ev path method query body w2"
    using assms(1-5)
    by (subst makeTuyaRequest.simps)
       (auto simp: axios_def authRejected_def authCode_def MAX_RETRIES_def makeTuyaRequest_last
          split: reply.splits resp_data.splits option.splits)
  have c: "accessToken w2 = None"
    by (simp add: assms(5) clearToken_def)
  have fetch: "requests w3 = requests w2 @ [tokenRequest ev w2]"
    using assms(6) c
    by (auto simp: getAccessToken_def axios_def Let_def truthy_str_def
        split: prod.splits sum.splits dest: tokenResponse_requests)
  show ?thesis
    using first fetch assms(6) by (simp add: lastAttempt_def assms(5) clearToken_def)
qed

section \<open>Poll orchestrator: the summary\<close>

lemma monitor_results:
  "fst (monitor probe db devices) =
     Status200 \<lparr>devicesChecked = length devices,
       online = length (filter isOnline (map (\<lambda>d. fst (monitorDevice probe db d)) devices)),
       offline = length devices -
         length (filter isOnline (map (\<lambda>d. fst (monitorDevice probe db d)) devices)),
       results = map (\<lambda>d. entry_of (fst (monitorDevice probe db d))) devices\<rparr>"
  by (simp add: monitor_def Let_def entry_of_def comp_def)

lemma monitorDevice_fst:
  "fst (monitorDevice probe db dev) =
     (case probe dev of
        Inr result \<Rightarrow> result
      | Inl err \<Rightarrow> \<lparr>isOnline = False, responseTimeMs = None, powerConsumptionW = Null,
                    voltageV = Null, error = Some (err_message err), deviceId = dev_id dev,
                    deviceName = Some (dev_name dev)\<rparr>)"
  by (simp add: monitorDevice_def Let_def split: sum.splits)

text \<open>Every probe reports the id and the name of the device it was called with.\<close>

lemma probe_in_reports_device:
  "\<exists>obs. probe_in ev w dev = Inr obs \<and> deviceId obs = dev_id dev \<and>
     deviceName obs = Some (dev_name dev)"
  by (simp add: probe_in_def checkDeviceAvailability_cases probeFailed_def probeRejected_def
      probeSucceeded_def Let_def split: prod.splits sum.splits resp_data.splits)



section \<open>Poll orchestrator: persistence failures\<close>

text \<open>
  C8. Whatever the database does (each write may succeed or throw), the cycle completes
  with status 200 and with the same summary; the entry of every device whose probe
  returned an Observation reports that Observation's \<open>isOnline\<close>, \<open>responseTimeMs\<close>
  and \<open>powerConsumptionW\<close> unchanged.
\<close>

theorem persistence_failure_swallowed:
  "\<exists>s. fst (monitor probe db devices) = Status200 s \<and>
      fst (monitor probe db' devices) = Status200 s \<and>
      length (results s) = length devices \<and>
      (\<forall>i obs. i < length devices \<and> probe (devices ! i) = Inr obs \<longrightarrow>
         r_isOnline (results s ! i) = isOnline obs \<and>
         r_responseTimeMs (results s ! i) = responseTimeMs obs \<and>
         r_powerConsumptionW (results s ! i) = powerConsumptionW obs \<and>
         r_deviceId (results s ! i) = deviceId obs \<and>
         r_deviceName (results s ! i) = deviceName obs)"
  by (simp add: monitor_results monitorDevice_fst entry_of_def)


text \<open>
  The write for the first device throws: its entry still reports it online with 23.5 W,
  the summary is the one of a cycle whose writes all succeed, and only the row of the
  second device is written.
\<close>

theorem persistence_failure_swallowed_witness:
  "db_fails_for ''dev1''
     \<lparr>row_deviceId = ''dev1'', row_deviceName = Some ''Plug 1'', row_isOnline = True,
      row_responseTimeMs = Some 220, row_powerConsumptionW = Num (47 / 2),
      row_errorMessage = None\<rparr> = Some ''Connection lost'' \<and>
   monitor scenario_probe (db_fails_for ''dev1'') [plug1, plug2] =
     (Status200 \<lparr>devicesChecked = 2, online = 1, offline = 1,
        results = [\<lparr>r_deviceId = ''dev1'', r_deviceName = Some ''Plug 1'', r_isOnline = True,
                    r_responseTimeMs = Some 220, r_powerConsumptionW = Num (47 / 2)\<rparr>,
                   \<lparr>r_deviceId = ''dev2'', r_deviceName = Some ''Plug 2'', r_isOnline = False,
                    r_responseTimeMs = None, r_powerConsumptionW = Null\<rparr>]\<rparr>,
      [\<lparr>row_deviceId = ''dev2'', row_deviceName = Some ''Plug 2'', row_isOnline = False,
        row_responseTimeMs = None, row_powerConsumptionW = Null,
        row_errorMessage = Some ''Timeout''\<rparr>]) \<and>
   fst (monitor scenario_probe db_ok [plug1, plug2]) =
     fst (monitor scenario_probe (db_fails_for ''dev1'') [plug1, plug2])"
proof -
  have p1: "scenario_probe plug1 =
     Inr \<lparr>isOnline = True, responseTimeMs = Some 220, powerConsumptionW = Num (47 / 2),
          voltageV = Num 230, error = None, deviceId = ''dev1'', deviceName = Some ''Plug 1''\<rparr>"
    by (simp add: scenario_probe_def probe_in_def plug1_def probe_simps scenario_defs scenario_simps)
  have p2: "scenario_probe plug2 =
     Inr \<lparr>isOnline = False, responseTimeMs = None, powerConsumptionW = Null, voltageV = Null,
          error = Some ''Timeout'', deviceId = ''dev2'', deviceName = Some ''Plug 2''\<rparr>"
    by (simp add: scenario_probe_def probe_in_def plug2_def probe_simps scenario_defs scenario_simps)
  have m: "monitor scenario_probe (db_fails_for ''dev1'') [plug1, plug2] =
     (Status200 \<lparr>devicesChecked = 2, online = 1, offline = 1,
        results = [\<lparr>r_deviceId = ''dev1'', r_deviceName = Some ''Plug 1'', r_isOnline = True,
                    r_responseTimeMs = Some 220, r_powerConsumptionW = Num (47 / 2)\<rparr>,
                   \<lparr>r_deviceId = ''dev2'', r_deviceName = Some ''Plug 2'', r_isOnline = False,
                    r_responseTimeMs = None, r_powerConsumptionW = Null\<rparr>]\<rparr>,
      [\<lparr>row_deviceId = ''dev2'', row_deviceName = Some ''Plug 2'', row_isOnline = False,
        row_responseTimeMs = None, row_powerConsumptionW = Null,
        row_errorMessage = Some ''Timeout''\<rparr>])"
    by (simp add: monitor_def monitorDevice_def p1 p2 db_fails_for_def Let_def)
  show ?thesis
    using persistence_failure_swallowed
            [of scenario_probe "db_fails_for ''dev1''" "[plug1, plug2]" db_ok] m
    by (auto simp: db_fails_for_def)
qed

section \<open>Signer\<close>






text \<open>The same holds for every pair of digests and all other inputs.\<close>

lemma signRequest_GET_ignores_body:
  "signRequest cr access_id access_key cachedToken now path ''GET'' query body token =
   signRequest cr access_id access_key cachedToken now path ''GET'' query body' token"
  by (simp add: signRequest_def)



end
